theory Spec2Isabelle
  imports Main
begin

section \<open>JavaScript values used by the notepad\<close>

text \<open>
  The two \<^verbatim>\<open>notepad\<close> functions of the repository (the selection-aware one of
  \<^verbatim>\<open>src/unnamed/part_000\<close> and the earlier one of \<^verbatim>\<open>src/index.js\<close>) keep
  a cursor in a JavaScript number. Numeric command fields are integers; the only
  non-integer number the code can produce from them is \<^verbatim>\<open>NaN\<close>, which arises when
  the count of a \<^verbatim>\<open>BACKSPACE\<close> tuple is missing (\<^verbatim>\<open>cursor - undefined\<close>).
  Numbers are therefore mathematical integers or \<^verbatim>\<open>NaN\<close>; the rounding of doubles
  beyond \<open>2^53\<close> is not modelled. A string is the list of its code units.
\<close>

datatype jsnum = Number int | NaN

text \<open>
  \<^verbatim>\<open>a + b\<close> and \<^verbatim>\<open>a - b\<close> on numbers: \<^verbatim>\<open>NaN\<close> is absorbing. On integers the
  two are exact here; the doubles of the code give the same result whenever the exact
  result is at most \<open>2^53\<close> in magnitude, and round it otherwise. Rounding keeps the
  order, so a comparison of a sum or difference with 0 or with the length of a string
  has the same outcome in both; a statement below that gives the value of such a result
  is made for the exact range only.
\<close>

fun plus_js :: "jsnum \<Rightarrow> jsnum \<Rightarrow> jsnum" where
  "plus_js (Number a) (Number b) = Number (a + b)"
| "plus_js _ _ = NaN"

fun minus_js :: "jsnum \<Rightarrow> jsnum \<Rightarrow> jsnum" where
  "minus_js (Number a) (Number b) = Number (a - b)"
| "minus_js _ _ = NaN"

text \<open>\<^verbatim>\<open>a < b\<close> and \<^verbatim>\<open>a > b\<close>: every comparison with \<^verbatim>\<open>NaN\<close> is false.\<close>

fun less_js :: "jsnum \<Rightarrow> jsnum \<Rightarrow> bool" where
  "less_js (Number a) (Number b) = (a < b)"
| "less_js _ _ = False"

fun greater_js :: "jsnum \<Rightarrow> jsnum \<Rightarrow> bool" where
  "greater_js (Number a) (Number b) = (a > b)"
| "greater_js _ _ = False"

text \<open>\<^verbatim>\<open>Math.max(a, b)\<close>: \<^verbatim>\<open>NaN\<close> if either argument is.\<close>

fun Math_max :: "jsnum \<Rightarrow> jsnum \<Rightarrow> jsnum" where
  "Math_max (Number a) (Number b) = Number (max a b)"
| "Math_max _ _ = NaN"

text \<open>
  The count of a \<^verbatim>\<open>BACKSPACE\<close> tuple as a number: a missing second element
  destructures to \<^verbatim>\<open>undefined\<close>, which arithmetic converts to \<^verbatim>\<open>NaN\<close>.
\<close>

fun ToNumber :: "int option \<Rightarrow> jsnum" where
  "ToNumber None = NaN"
| "ToNumber (Some n) = Number n"

text \<open>\<^verbatim>\<open>ToIntegerOrInfinity\<close>, applied by \<^verbatim>\<open>slice\<close> to its arguments: \<^verbatim>\<open>NaN\<close> is 0.\<close>

fun ToInteger :: "jsnum \<Rightarrow> int" where
  "ToInteger NaN = 0"
| "ToInteger (Number n) = n"

text \<open>
  \<^verbatim>\<open>String.prototype.slice(start, end)\<close>: a negative index counts from the end of
  the string, every index is clamped into \<open>[0, length]\<close>, and an omitted \<^verbatim>\<open>end\<close>
  is the length. It never throws.
\<close>

definition slice_index :: "nat \<Rightarrow> int \<Rightarrow> nat" where
  "slice_index len i =
     (if i < 0 then nat (max (int len + i) 0) else nat (min i (int len)))"

definition slice :: "string \<Rightarrow> int \<Rightarrow> int option \<Rightarrow> string" where
  "slice str start endp =
     (let len = length str;
          from = slice_index len start;
          to = (case endp of None \<Rightarrow> len | Some e \<Rightarrow> slice_index len e)
      in take (to - from) (drop from str))"

section \<open>The selection-aware notepad (src/unnamed/part_000)\<close>

text \<open>
  A command tuple \<^verbatim>\<open>[command, value, rightPos]\<close>. The count of \<^verbatim>\<open>BACKSPACE\<close>
  may be absent, as in the tuple \<^verbatim>\<open>["BACKSPACE"]\<close> of the file's own sample input.
\<close>

datatype command =
    APPEND string
  | MOVE int
  | BACKSPACE "int option"
  | INSERT string
  | SELECT int int

text \<open>The object \<^verbatim>\<open>{start, end}\<close> held by \<^verbatim>\<open>selection\<close>.\<close>

record range =
  start :: int
  end' :: int

text \<open>
  The variables that the callback of \<^verbatim>\<open>forEach\<close> updates: \<^verbatim>\<open>resultsArray\<close> and
  \<^verbatim>\<open>cursor\<close> in both files, \<^verbatim>\<open>selection\<close> in part_000 only.
\<close>

record vars =
  resultsArray :: "string list"
  cursor :: jsnum

record state = vars +
  selection :: "range option"

definition init :: state where
  "init = \<lparr>resultsArray = [], cursor = Number 0, selection = None\<rparr>"

definition clampPosition :: "int \<Rightarrow> int \<Rightarrow> int" where
  "clampPosition pos textLength = max 0 (min pos textLength)"

text \<open>\<^verbatim>\<open>clearSelection()\<close>, always called without an argument: the cursor stays.\<close>

definition clearSelection :: "state \<Rightarrow> state" where
  "clearSelection s = s\<lparr>selection := None\<rparr>"

text \<open>\<^verbatim>\<open>resultsArray[resultsArray.length - 1] || ''\<close>\<close>

definition lastResult :: "'a vars_scheme \<Rightarrow> string" where
  "lastResult s = (if resultsArray s = [] then [] else last (resultsArray s))"

definition push :: "string \<Rightarrow> 'a vars_scheme \<Rightarrow> 'a vars_scheme" where
  "push newText s = s\<lparr>resultsArray := resultsArray s @ [newText]\<rparr>"

text \<open>The \<^verbatim>\<open>switch\<close> statement, one equation per \<^verbatim>\<open>case\<close>.\<close>

fun switch :: "state \<Rightarrow> command \<Rightarrow> state" where
  "switch s (SELECT value rightPos) =
     (let textLength = int (length (lastResult s));
          leftClamped = clampPosition value textLength;
          rightClamped = clampPosition rightPos textLength
      in if leftClamped = rightClamped
         then s\<lparr>selection := None, cursor := Number leftClamped\<rparr>
         else s\<lparr>selection := Some \<lparr>start = leftClamped, end' = rightClamped\<rparr>,
                cursor := Number rightClamped\<rparr>)"
| "switch s (APPEND value) =
     (case selection s of
        Some sel \<Rightarrow>
          (let newText = slice (lastResult s) 0 (Some (start sel)) @ value
                          @ slice (lastResult s) (end' sel) None
           in clearSelection
                ((push newText s)\<lparr>cursor := Number (start sel + int (length value))\<rparr>))
      | None \<Rightarrow>
          (push (lastResult s @ value) s)
            \<lparr>cursor := Number (int (length (lastResult s @ value)))\<rparr>)"
| "switch s (MOVE value) =
     (let s1 = clearSelection s;
          target = plus_js (cursor s1) (Number value)
      in if less_js target (Number 0) then s1\<lparr>cursor := Number 0\<rparr>
         else if greater_js target (Number (int (length (lastResult s))))
         then s1\<lparr>cursor := Number (int (length (lastResult s)))\<rparr>
         else s1\<lparr>cursor := target\<rparr>)"
| "switch s (BACKSPACE value) =
     (case selection s of
        Some sel \<Rightarrow>
          (let newText = slice (lastResult s) 0 (Some (start sel))
                          @ slice (lastResult s) (end' sel) None
           in clearSelection ((push newText s)\<lparr>cursor := Number (start sel)\<rparr>))
      | None \<Rightarrow>
          (let deleteStart = Math_max (Number 0) (minus_js (cursor s) (ToNumber value));
               newText = slice (lastResult s) 0 (Some (ToInteger deleteStart))
                          @ slice (lastResult s) (ToInteger (cursor s)) None
           in (push newText s)\<lparr>cursor := deleteStart\<rparr>))"
| "switch s (INSERT value) =
     (case selection s of
        Some sel \<Rightarrow>
          (let newText = slice (lastResult s) 0 (Some (start sel)) @ value
                          @ slice (lastResult s) (end' sel) None
           in clearSelection
                ((push newText s)\<lparr>cursor := Number (start sel + int (length value))\<rparr>))
      | None \<Rightarrow>
          (if resultsArray s = []
           then (push value s)\<lparr>cursor := Number (int (length value))\<rparr>
           else
             (let newText = slice (lastResult s) 0 (Some (ToInteger (cursor s))) @ value
                             @ slice (lastResult s) (ToInteger (cursor s)) None
              in (push newText s)\<lparr>cursor := plus_js (cursor s) (Number (int (length value)))\<rparr>)))"

text \<open>
  The callback of \<^verbatim>\<open>forEach\<close>: the guard that skips a command other than
  \<^verbatim>\<open>APPEND\<close>, \<^verbatim>\<open>INSERT\<close> and \<^verbatim>\<open>SELECT\<close> while \<^verbatim>\<open>resultsArray\<close> is empty, then the
  \<^verbatim>\<open>switch\<close>. The \<^verbatim>\<open>console.warn\<close> of the guard writes a diagnostic line and
  touches none of the variables; it is left out.
\<close>

fun guarded :: "command \<Rightarrow> bool" where
  "guarded (APPEND _) = False"
| "guarded (INSERT _) = False"
| "guarded (SELECT _ _) = False"
| "guarded _ = True"

definition callback :: "state \<Rightarrow> command \<Rightarrow> state" where
  "callback s tuple = (if guarded tuple \<and> resultsArray s = [] then s else switch s tuple)"

text \<open>
  \<^verbatim>\<open>inputCommands.forEach\<close> from a given state, and the whole function
  \<^verbatim>\<open>notepad\<close> of part_000 (the bare name is a keyword of Isabelle).
\<close>

definition forEach :: "state \<Rightarrow> command list \<Rightarrow> state" where
  "forEach s inputCommands = foldl callback s inputCommands"

definition notepad_select :: "command list \<Rightarrow> string list" where
  "notepad_select inputCommands = resultsArray (forEach init inputCommands)"

subsection \<open>Exceptions\<close>

text \<open>
  part_000 has no \<^verbatim>\<open>throw\<close>. On command tuples whose fields have the types of the
  docstring, the one operation of the callback that JavaScript can answer with an
  exception is the read of a property of \<^verbatim>\<open>selection\<close>: \<^verbatim>\<open>selection.start\<close> and
  \<^verbatim>\<open>selection.end\<close> throw a \<^verbatim>\<open>TypeError\<close> when \<^verbatim>\<open>selection\<close> is \<^verbatim>\<open>null\<close>. The
  other operations return a value at every argument: reading \<^verbatim>\<open>resultsArray\<close> beyond
  its end gives \<^verbatim>\<open>undefined\<close>, \<^verbatim>\<open>slice\<close>, \<^verbatim>\<open>length\<close> and \<^verbatim>\<open>+\<close> are applied to strings,
  and arithmetic, comparison, \<^verbatim>\<open>Math.max\<close> and \<^verbatim>\<open>Math.min\<close> to numbers or
  \<^verbatim>\<open>undefined\<close>.
\<close>

datatype error = TypeError

fun read_start :: "range option \<Rightarrow> error + int" where
  "read_start None = Inl TypeError"
| "read_start (Some sel) = Inr (start sel)"

fun read_end :: "range option \<Rightarrow> error + int" where
  "read_end None = Inl TypeError"
| "read_end (Some sel) = Inr (end' sel)"

text \<open>Sequencing: an exception ends the evaluation.\<close>

definition and_then :: "error + 'a \<Rightarrow> ('a \<Rightarrow> error + 'b) \<Rightarrow> error + 'b" where
  "and_then m f = (case m of Inl e \<Rightarrow> Inl e | Inr x \<Rightarrow> f x)"

text \<open>
  The \<^verbatim>\<open>switch\<close> statement again, with every read of \<^verbatim>\<open>selection.start\<close> and
  \<^verbatim>\<open>selection.end\<close> as an operation that can throw, under the test \<^verbatim>\<open>if (selection)\<close>
  of the source. The cases \<^verbatim>\<open>SELECT\<close> and \<^verbatim>\<open>MOVE\<close> read no property of
  \<^verbatim>\<open>selection\<close>.
\<close>

fun switch_checked :: "state \<Rightarrow> command \<Rightarrow> error + state" where
  "switch_checked s (SELECT value rightPos) = Inr (switch s (SELECT value rightPos))"
| "switch_checked s (APPEND value) =
     (if selection s \<noteq> None
      then and_then (read_start (selection s)) (\<lambda>selection_start.
           and_then (read_end (selection s)) (\<lambda>selection_end.
             Inr (clearSelection
                   ((push (slice (lastResult s) 0 (Some selection_start) @ value
                           @ slice (lastResult s) selection_end None) s)
                      \<lparr>cursor := Number (selection_start + int (length value))\<rparr>))))
      else Inr ((push (lastResult s @ value) s)
                  \<lparr>cursor := Number (int (length (lastResult s @ value)))\<rparr>))"
| "switch_checked s (MOVE value) = Inr (switch s (MOVE value))"
| "switch_checked s (BACKSPACE value) =
     (if selection s \<noteq> None
      then and_then (read_start (selection s)) (\<lambda>selection_start.
           and_then (read_end (selection s)) (\<lambda>selection_end.
             Inr (clearSelection
                   ((push (slice (lastResult s) 0 (Some selection_start)
                           @ slice (lastResult s) selection_end None) s)
                      \<lparr>cursor := Number selection_start\<rparr>))))
      else
        (let deleteStart = Math_max (Number 0) (minus_js (cursor s) (ToNumber value));
             newText = slice (lastResult s) 0 (Some (ToInteger deleteStart))
                        @ slice (lastResult s) (ToInteger (cursor s)) None
         in Inr ((push newText s)\<lparr>cursor := deleteStart\<rparr>)))"
| "switch_checked s (INSERT value) =
     (if selection s \<noteq> None
      then and_then (read_start (selection s)) (\<lambda>selection_start.
           and_then (read_end (selection s)) (\<lambda>selection_end.
             Inr (clearSelection
                   ((push (slice (lastResult s) 0 (Some selection_start) @ value
                           @ slice (lastResult s) selection_end None) s)
                      \<lparr>cursor := Number (selection_start + int (length value))\<rparr>))))
      else if resultsArray s = []
      then Inr ((push value s)\<lparr>cursor := Number (int (length value))\<rparr>)
      else
        (let newText = slice (lastResult s) 0 (Some (ToInteger (cursor s))) @ value
                        @ slice (lastResult s) (ToInteger (cursor s)) None
         in Inr ((push newText s)
                   \<lparr>cursor := plus_js (cursor s) (Number (int (length value)))\<rparr>)))"

definition callback_checked :: "state \<Rightarrow> command \<Rightarrow> error + state" where
  "callback_checked s tuple =
     (if guarded tuple \<and> resultsArray s = [] then Inr s else switch_checked s tuple)"

text \<open>An exception in the callback leaves \<^verbatim>\<open>forEach\<close> and the function.\<close>

fun forEach_checked :: "state \<Rightarrow> command list \<Rightarrow> error + state" where
  "forEach_checked s [] = Inr s"
| "forEach_checked s (tuple # inputCommands) =
     and_then (callback_checked s tuple) (\<lambda>s'. forEach_checked s' inputCommands)"

definition notepad_checked :: "command list \<Rightarrow> error + string list" where
  "notepad_checked inputCommands =
     and_then (forEach_checked init inputCommands) (\<lambda>s. Inr (resultsArray s))"

section \<open>The earlier notepad (src/index.js)\<close>

text \<open>
  The function of \<^verbatim>\<open>src/index.js\<close> has no selection and knows four commands; a
  \<^verbatim>\<open>SELECT\<close> tuple falls to \<^verbatim>\<open>default\<close> (or to the guard while nothing has been
  pushed). \<^verbatim>\<open>MOVE\<close> limits the cursor by \<^verbatim>\<open>lastResult.length - 1\<close>, and
  \<^verbatim>\<open>BACKSPACE\<close> passes \<^verbatim>\<open>cursor - value\<close> to \<^verbatim>\<open>slice\<close> as it is.
\<close>

definition init_index :: vars where
  "init_index = \<lparr>resultsArray = [], cursor = Number 0\<rparr>"

fun switch_index :: "vars \<Rightarrow> command \<Rightarrow> vars" where
  "switch_index s (APPEND value) =
     (push (lastResult s @ value) s)
       \<lparr>cursor := Number (int (length (lastResult s @ value)))\<rparr>"
| "switch_index s (MOVE value) =
     (let target = plus_js (cursor s) (Number value)
      in if less_js target (Number 0) then s\<lparr>cursor := Number 0\<rparr>
         else if greater_js target (Number (int (length (lastResult s)) - 1))
         then s\<lparr>cursor := Number (int (length (lastResult s)) - 1)\<rparr>
         else s\<lparr>cursor := target\<rparr>)"
| "switch_index s (BACKSPACE value) =
     (let pushMe = slice (lastResult s) 0
                     (Some (ToInteger (minus_js (cursor s) (ToNumber value))))
                   @ slice (lastResult s) (ToInteger (cursor s))
                       (Some (int (length (lastResult s))))
      in (push pushMe s)\<lparr>cursor := minus_js (cursor s) (ToNumber value)\<rparr>)"
| "switch_index s (INSERT value) =
     (if resultsArray s = []
      then (push value s)\<lparr>cursor := Number (int (length value))\<rparr>
      else (push (slice (lastResult s) 0 (Some (ToInteger (cursor s))) @ value
                  @ slice (lastResult s) (ToInteger (cursor s))
                      (Some (int (length (lastResult s))))) s)
             \<lparr>cursor := plus_js (cursor s) (Number (int (length value)))\<rparr>)"
| "switch_index s (SELECT value rightPos) = s"

fun guarded_index :: "command \<Rightarrow> bool" where
  "guarded_index (APPEND _) = False"
| "guarded_index (INSERT _) = False"
| "guarded_index _ = True"

definition callback_index :: "vars \<Rightarrow> command \<Rightarrow> vars" where
  "callback_index s tuple =
     (if guarded_index tuple \<and> resultsArray s = [] then s else switch_index s tuple)"

definition notepad_index :: "command list \<Rightarrow> string list" where
  "notepad_index inputCommands = resultsArray (foldl callback_index init_index inputCommands)"

section \<open>Predicates of the specification\<close>

text \<open>
  The data model's bound on the cursor: an integer offset with
  \<open>0 \<le> cursor \<le> length\<close> of the current buffer. A \<^verbatim>\<open>NaN\<close> cursor is out of range.
\<close>

definition cursor_in_range :: "state \<Rightarrow> bool" where
  "cursor_in_range s =
     (case cursor s of NaN \<Rightarrow> False
      | Number c \<Rightarrow> 0 \<le> c \<and> c \<le> int (length (lastResult s)))"

text \<open>The start of an active selection lies inside the current buffer.\<close>

definition selection_in_range :: "state \<Rightarrow> bool" where
  "selection_in_range s =
     (case selection s of None \<Rightarrow> True
      | Some sel \<Rightarrow> 0 \<le> start sel \<and> start sel \<le> int (length (lastResult s)))"

text \<open>
  A \<^verbatim>\<open>BACKSPACE\<close> that reads its count (something has been pushed and no selection
  is active) carries one, and the count is not negative. Along a run, from a state.
\<close>

fun count_given :: "state \<Rightarrow> command \<Rightarrow> bool" where
  "count_given s (BACKSPACE value) =
     (resultsArray s = [] \<or> selection s \<noteq> None \<or>
      (case value of None \<Rightarrow> False | Some n \<Rightarrow> 0 \<le> n))"
| "count_given s _ = True"

fun counts_given :: "state \<Rightarrow> command list \<Rightarrow> bool" where
  "counts_given s [] = True"
| "counts_given s (c # cs) = (count_given s c \<and> counts_given (callback s c) cs)"

text \<open>
  While nothing has been pushed, the cursor and the selection still have their initial
  values.
\<close>

definition fresh :: "state \<Rightarrow> bool" where
  "fresh s = (resultsArray s \<noteq> [] \<or> (cursor s = Number 0 \<and> selection s = None))"

text \<open>
  The commands that can push the first snapshot, and the commands that push one whenever
  they are not skipped.
\<close>

fun originates :: "command \<Rightarrow> bool" where
  "originates (APPEND _) = True"
| "originates (INSERT _) = True"
| "originates _ = False"

fun produces :: "command \<Rightarrow> bool" where
  "produces (APPEND _) = True"
| "produces (INSERT _) = True"
| "produces (BACKSPACE _) = True"
| "produces _ = False"

text \<open>
  Where the two files part: the function of \<^verbatim>\<open>src/index.js\<close> stops a \<^verbatim>\<open>MOVE\<close>
  one position before the end of the text, and lets a \<^verbatim>\<open>BACKSPACE\<close> count larger
  than the cursor reach \<^verbatim>\<open>slice\<close> as a negative index. A command is clear of both
  when its Move target is before the end of the text and its Backspace count is at most
  the cursor; \<^verbatim>\<open>SELECT\<close> is unknown to \<^verbatim>\<open>src/index.js\<close>.
\<close>

fun defect_free :: "state \<Rightarrow> command \<Rightarrow> bool" where
  "defect_free s (MOVE d) =
     (resultsArray s = [] \<or>
      (case cursor s of NaN \<Rightarrow> True | Number c \<Rightarrow> c + d < int (length (lastResult s))))"
| "defect_free s (BACKSPACE k) =
     (resultsArray s = [] \<or>
      (case minus_js (cursor s) (ToNumber k) of NaN \<Rightarrow> True | Number x \<Rightarrow> 0 \<le> x))"
| "defect_free s (SELECT _ _) = False"
| "defect_free s _ = True"

fun defects_free :: "state \<Rightarrow> command list \<Rightarrow> bool" where
  "defects_free s [] = True"
| "defects_free s (c # cs) = (defect_free s c \<and> defects_free (callback s c) cs)"

text \<open>The variables of the two functions hold the same values.\<close>

definition same :: "vars \<Rightarrow> state \<Rightarrow> bool" where
  "same v s = (resultsArray v = resultsArray s \<and> cursor v = cursor s \<and> selection s = None)"

section \<open>Facts about slice, push and the callback\<close>

lemma slice_to: "0 \<le> i \<Longrightarrow> slice str 0 (Some i) = take (nat i) str"
  by (auto simp: slice_def slice_index_def min_def Let_def)

lemma slice_from: "0 \<le> i \<Longrightarrow> slice str i None = drop (nat i) str"
  by (auto simp: slice_def slice_index_def min_def Let_def)

lemma lastResult_push [simp]: "lastResult (push t s) = t"
  by (simp add: lastResult_def push_def)

lemmas run_defs =
  forEach_def init_def callback_def lastResult_def push_def clearSelection_def
  clampPosition_def slice_def slice_index_def

lemma fresh_init: "fresh init"
  by (simp add: fresh_def init_def)

lemma fresh_callback: "fresh s \<Longrightarrow> fresh (callback s c)"
  by (cases c)
     (auto simp: fresh_def callback_def push_def clearSelection_def lastResult_def
        clampPosition_def Let_def split: option.splits)

lemma fresh_forEach: "fresh s \<Longrightarrow> fresh (forEach s cs)"
  unfolding forEach_def
  by (induction cs arbitrary: s) (simp_all add: fresh_callback)

section \<open>The sample run with selections\<close>

text \<open>
  C1. On the commands Append "Hello World!", Select(0,5), Append "Hi", Select(3,8),
  Backspace(), Select(2,2), Insert " beautiful", Select(-5,100), Append "Greetings!"
  the function returns exactly the five snapshots "Hello World!", "Hi World!", "Hi !",
  "Hi beautiful !", "Greetings!".
\<close>

theorem scenario_B:
  "notepad_select [APPEND ''Hello World!'', SELECT 0 5, APPEND ''Hi'', SELECT 3 8,
                   BACKSPACE None, SELECT 2 2, INSERT '' beautiful'', SELECT (-5) 100,
                   APPEND ''Greetings!'']
   = [''Hello World!'', ''Hi World!'', ''Hi !'', ''Hi beautiful !'', ''Greetings!'']"
  by (simp add: notepad_select_def run_defs)

section \<open>Backspace and its count\<close>

text \<open>
  C2, as the claim states it, fails: the code has no default for the count. Right after
  Append "abc" (log not empty, no selection, cursor 3) a Backspace without a count pushes
  the empty string and leaves the cursor \<^verbatim>\<open>NaN\<close>, where Backspace(1) pushes "ab" and
  leaves the cursor at 2.
\<close>

theorem backspace_default_counterexample:
  "resultsArray (forEach init [APPEND ''abc'']) = [''abc'']
   \<and> selection (forEach init [APPEND ''abc'']) = None
   \<and> notepad_select [APPEND ''abc'', BACKSPACE None] = [''abc'', []]
   \<and> cursor (forEach init [APPEND ''abc'', BACKSPACE None]) = NaN
   \<and> notepad_select [APPEND ''abc'', BACKSPACE (Some 1)] = [''abc'', ''ab'']
   \<and> cursor (forEach init [APPEND ''abc'', BACKSPACE (Some 1)]) = Number 2"
  by (simp add: notepad_select_def run_defs)

text \<open>
  C2, amended. In every state with a non-empty snapshot log, no active selection and an
  integer cursor \<open>c\<close> with \<open>0 \<le> c \<le> 2^53\<close>, Backspace with an explicit count \<open>n\<close>
  such that \<open>c - n \<le> 2^53\<close> (every count \<open>n \<ge> 0\<close>, in particular \<open>n = 1\<close>) pushes
  \<open>current[0:max(0, c - n)] + current[c:]\<close> and sets the cursor to \<open>max(0, c - n)\<close>.
  The count has no default: in any state, a Backspace without a count does what
  Backspace(1) does if and only if the log is empty, a selection is active, or the cursor
  is \<^verbatim>\<open>NaN\<close> already.
\<close>

theorem backspace_count:
  "(resultsArray s \<noteq> [] \<and> selection s = None \<and> cursor s = Number c
      \<and> 0 \<le> c \<and> c \<le> 2 ^ 53 \<and> c - n \<le> 2 ^ 53 \<longrightarrow>
      callback s (BACKSPACE (Some n)) =
        s\<lparr>resultsArray := resultsArray s
              @ [take (nat (max 0 (c - n))) (lastResult s) @ drop (nat c) (lastResult s)],
          cursor := Number (max 0 (c - n))\<rparr>)
   \<and> (callback s (BACKSPACE None) = callback s (BACKSPACE (Some 1))
        \<longleftrightarrow> resultsArray s = [] \<or> selection s \<noteq> None \<or> cursor s = NaN)"
proof -
  have explicit: "callback s (BACKSPACE (Some n)) =
        s\<lparr>resultsArray := resultsArray s
              @ [take (nat (max 0 (c - n))) (lastResult s) @ drop (nat c) (lastResult s)],
          cursor := Number (max 0 (c - n))\<rparr>"
    if "resultsArray s \<noteq> []" "selection s = None" "cursor s = Number c" "0 \<le> c"
    using that by (simp add: callback_def push_def slice_to slice_from Let_def)
  have cursors_differ:
    "cursor (callback s (BACKSPACE None)) \<noteq> cursor (callback s (BACKSPACE (Some 1)))"
    if "resultsArray s \<noteq> []" "selection s = None" "cursor s = Number k" for k
    using that by (simp add: callback_def push_def Let_def)
  have omitted: "callback s (BACKSPACE None) = callback s (BACKSPACE (Some 1))
        \<longleftrightarrow> resultsArray s = [] \<or> selection s \<noteq> None \<or> cursor s = NaN"
  proof (cases "resultsArray s = [] \<or> selection s \<noteq> None \<or> cursor s = NaN")
    case True
    then show ?thesis
      by (auto simp: callback_def push_def Let_def split: option.splits)
  next
    case False
    then obtain k where "resultsArray s \<noteq> []" "selection s = None" "cursor s = Number k"
      by (cases "cursor s") auto
    from cursors_differ [OF this] False show ?thesis by auto
  qed
  from explicit omitted show ?thesis by blast
qed

theorem backspace_count_witness:
  "callback \<lparr>resultsArray = [''abc''], cursor = Number 3, selection = None\<rparr>
      (BACKSPACE (Some 1))
     = \<lparr>resultsArray = [''abc'', ''ab''], cursor = Number 2, selection = None\<rparr>
   \<and> callback \<lparr>resultsArray = [''abc''], cursor = Number 3, selection = None\<rparr>
        (BACKSPACE None)
     \<noteq> callback \<lparr>resultsArray = [''abc''], cursor = Number 3, selection = None\<rparr>
        (BACKSPACE (Some 1))
   \<and> callback \<lparr>resultsArray = [''abc''], cursor = Number 3,
         selection = Some \<lparr>start = 0, end' = 1\<rparr>\<rparr> (BACKSPACE None)
     = callback \<lparr>resultsArray = [''abc''], cursor = Number 3,
         selection = Some \<lparr>start = 0, end' = 1\<rparr>\<rparr> (BACKSPACE (Some 1))
   \<and> callback \<lparr>resultsArray = [''abc'', []], cursor = NaN, selection = None\<rparr>
        (BACKSPACE None)
     = callback \<lparr>resultsArray = [''abc'', []], cursor = NaN, selection = None\<rparr>
        (BACKSPACE (Some 1))"
proof -
  have explicit:
    "callback \<lparr>resultsArray = [''abc''], cursor = Number 3, selection = None\<rparr>
        (BACKSPACE (Some 1))
     = \<lparr>resultsArray = [''abc'', ''ab''], cursor = Number 2, selection = None\<rparr>"
    using backspace_count
            [of "\<lparr>resultsArray = [''abc''], cursor = Number 3, selection = None\<rparr>" 3 1,
             THEN conjunct1]
    by (simp add: lastResult_def)
  have differ:
    "callback \<lparr>resultsArray = [''abc''], cursor = Number 3, selection = None\<rparr>
        (BACKSPACE None)
     \<noteq> callback \<lparr>resultsArray = [''abc''], cursor = Number 3, selection = None\<rparr>
        (BACKSPACE (Some 1))"
    using backspace_count
            [of "\<lparr>resultsArray = [''abc''], cursor = Number 3, selection = None\<rparr>" 3 1,
             THEN conjunct2]
    by simp
  have selected:
    "callback \<lparr>resultsArray = [''abc''], cursor = Number 3,
         selection = Some \<lparr>start = 0, end' = 1\<rparr>\<rparr> (BACKSPACE None)
     = callback \<lparr>resultsArray = [''abc''], cursor = Number 3,
         selection = Some \<lparr>start = 0, end' = 1\<rparr>\<rparr> (BACKSPACE (Some 1))"
    using backspace_count
            [of "\<lparr>resultsArray = [''abc''], cursor = Number 3,
                  selection = Some \<lparr>start = 0, end' = 1\<rparr>\<rparr>" 3 1, THEN conjunct2]
    by simp
  have nan:
    "callback \<lparr>resultsArray = [''abc'', []], cursor = NaN, selection = None\<rparr>
        (BACKSPACE None)
     = callback \<lparr>resultsArray = [''abc'', []], cursor = NaN, selection = None\<rparr>
        (BACKSPACE (Some 1))"
    using backspace_count
            [of "\<lparr>resultsArray = [''abc'', []], cursor = NaN, selection = None\<rparr>" 0 1,
             THEN conjunct2]
    by simp
  from explicit differ selected nan show ?thesis by blast
qed

section \<open>The bound on the cursor\<close>

text \<open>
  C3, as the claim states it, fails for a negative Backspace count: the deletion start
  \<open>max(0, cursor - count)\<close> is limited from below only. After Append "abc" and
  Backspace(-2) the buffer is still "abc" and the cursor is 5.
\<close>

theorem cursor_bound_counterexample:
  "lastResult (forEach init [APPEND ''abc'', BACKSPACE (Some (- 2))]) = ''abc''
   \<and> cursor (forEach init [APPEND ''abc'', BACKSPACE (Some (- 2))]) = Number 5
   \<and> \<not> cursor_in_range (forEach init [APPEND ''abc'', BACKSPACE (Some (- 2))])"
  by (simp add: cursor_in_range_def run_defs)

lemma in_range_callback:
  assumes "cursor_in_range s" "selection_in_range s" "count_given s c"
  shows "cursor_in_range (callback s c) \<and> selection_in_range (callback s c)"
proof (cases c)
  case (APPEND t)
  then show ?thesis using assms
    by (auto simp: callback_def cursor_in_range_def selection_in_range_def clearSelection_def
        slice_to slice_from lastResult_def push_def Let_def split: option.splits jsnum.splits)
next
  case (MOVE d)
  then show ?thesis using assms
    by (auto simp: callback_def cursor_in_range_def selection_in_range_def clearSelection_def
        lastResult_def Let_def split: option.splits jsnum.splits)
next
  case (BACKSPACE k)
  then show ?thesis using assms
    by (auto simp: callback_def cursor_in_range_def selection_in_range_def clearSelection_def
        slice_to slice_from lastResult_def push_def Let_def split: option.splits jsnum.splits)
next
  case (INSERT t)
  then show ?thesis using assms
    by (auto simp: callback_def cursor_in_range_def selection_in_range_def clearSelection_def
        slice_to slice_from lastResult_def push_def Let_def split: option.splits jsnum.splits)
next
  case (SELECT l r)
  then show ?thesis using assms
    by (auto simp: callback_def cursor_in_range_def selection_in_range_def clampPosition_def
        lastResult_def Let_def split: option.splits jsnum.splits)
qed

lemma in_range_forEach:
  "cursor_in_range s \<Longrightarrow> selection_in_range s \<Longrightarrow> counts_given s cs \<Longrightarrow>
   cursor_in_range (forEach s cs) \<and> selection_in_range (forEach s cs)"
proof (induction cs arbitrary: s)
  case Nil
  then show ?case by (simp add: forEach_def)
next
  case (Cons c cs)
  from Cons.prems have "cursor_in_range (callback s c) \<and> selection_in_range (callback s c)"
    by (simp add: in_range_callback)
  moreover from Cons.prems have "counts_given (callback s c) cs" by simp
  ultimately have "cursor_in_range (forEach (callback s c) cs)
      \<and> selection_in_range (forEach (callback s c) cs)"
    using Cons.IH by blast
  then show ?case by (simp add: forEach_def)
qed

lemma counts_given_take: "counts_given s cs \<Longrightarrow> counts_given s (take n cs)"
proof (induction cs arbitrary: s n)
  case Nil
  then show ?case by simp
next
  case (Cons c cs)
  then show ?case by (cases n) simp_all
qed

text \<open>
  C3, amended. For every command sequence in which each Backspace that reads its count
  (the log is not empty and no selection is active when it runs) carries a count that is
  not negative, with arbitrary integers as Move deltas and Select bounds, the cursor
  satisfies \<open>0 \<le> cursor \<le> length(current buffer)\<close> after each command: after every
  prefix \<open>take n cs\<close> of the sequence.
\<close>

theorem cursor_stays_in_range:
  assumes "counts_given init cs"
  shows "cursor_in_range (forEach init (take n cs))"
proof -
  have "cursor_in_range init" "selection_in_range init"
    by (simp_all add: cursor_in_range_def selection_in_range_def init_def lastResult_def)
  moreover have "counts_given init (take n cs)"
    using assms by (rule counts_given_take)
  ultimately show ?thesis
    using in_range_forEach by blast
qed

theorem cursor_stays_in_range_witness:
  "counts_given init [APPEND ''abc'', MOVE (- 7), MOVE 2, BACKSPACE (Some 5), SELECT 0 9,
                      BACKSPACE None]
   \<and> cursor_in_range (forEach init (take 4 [APPEND ''abc'', MOVE (- 7), MOVE 2,
                      BACKSPACE (Some 5), SELECT 0 9, BACKSPACE None]))"
proof -
  have h: "counts_given init [APPEND ''abc'', MOVE (- 7), MOVE 2, BACKSPACE (Some 5),
                              SELECT 0 9, BACKSPACE None]"
    by (simp add: run_defs)
  from h cursor_stays_in_range [OF h, of 4] show ?thesis by simp
qed

section \<open>Select\<close>

text \<open>
  C4. For Select(left, right) with \<open>left \<le> right\<close>, in any state, let \<open>n\<close> be the
  length of the current buffer and \<open>l\<close>, \<open>r\<close> the two bounds, each limited to
  \<open>[0, n]\<close> on its own. No snapshot is pushed. If \<open>l = r\<close> the selection becomes
  none and the cursor \<open>l\<close>; otherwise the selection becomes \<open>(l, r)\<close> with
  \<open>0 \<le> l \<le> r \<le> n\<close> and the cursor \<open>r\<close>. With both bounds beyond the length
  of the buffer the selection is none and the cursor is at the end.
\<close>

theorem select_clamps:
  assumes "left \<le> right"
    and "n = int (length (lastResult s))"
    and "l = (if left < 0 then 0 else if n < left then n else left)"
    and "r = (if right < 0 then 0 else if n < right then n else right)"
  shows "resultsArray (callback s (SELECT left right)) = resultsArray s
    \<and> (if l = r
       then selection (callback s (SELECT left right)) = None
          \<and> cursor (callback s (SELECT left right)) = Number l
       else selection (callback s (SELECT left right)) = Some \<lparr>start = l, end' = r\<rparr>
          \<and> 0 \<le> l \<and> l \<le> r \<and> r \<le> n
          \<and> cursor (callback s (SELECT left right)) = Number r)
    \<and> (n < left \<longrightarrow> selection (callback s (SELECT left right)) = None
          \<and> cursor (callback s (SELECT left right)) = Number n)"
  using assms
  by (auto simp: callback_def clampPosition_def Let_def)

theorem select_clamps_witness:
  "(- 2 :: int) \<le> 3
   \<and> resultsArray (callback \<lparr>resultsArray = [''Hello''], cursor = Number 1, selection = None\<rparr>
        (SELECT (- 2) 3)) = [''Hello'']
   \<and> selection (callback \<lparr>resultsArray = [''Hello''], cursor = Number 1, selection = None\<rparr>
        (SELECT (- 2) 3)) = Some \<lparr>start = 0, end' = 3\<rparr>
   \<and> cursor (callback \<lparr>resultsArray = [''Hello''], cursor = Number 1, selection = None\<rparr>
        (SELECT (- 2) 3)) = Number 3
   \<and> selection (callback \<lparr>resultsArray = [''Hello''], cursor = Number 1, selection = None\<rparr>
        (SELECT 7 9)) = None
   \<and> cursor (callback \<lparr>resultsArray = [''Hello''], cursor = Number 1, selection = None\<rparr>
        (SELECT 7 9)) = Number 5"
  using select_clamps
          [of "- 2" 3 5 "\<lparr>resultsArray = [''Hello''], cursor = Number 1, selection = None\<rparr>"
              0 3]
        select_clamps
          [of 7 9 5 "\<lparr>resultsArray = [''Hello''], cursor = Number 1, selection = None\<rparr>"
              5 5]
  by (simp add: lastResult_def)

section \<open>Commands on an empty log\<close>

text \<open>
  C5. Whenever the snapshot log is empty after a command sequence, a following Move,
  Backspace or Select is a no-op: the state after it (log, cursor and selection) is the
  state before it. Move and Backspace are skipped by the guard; Select runs, and limits
  both bounds to 0, where the cursor already is.
\<close>

theorem empty_log_noop:
  assumes "resultsArray (forEach init cs) = []"
    and "c = MOVE d \<or> c = BACKSPACE k \<or> c = SELECT l r"
  shows "callback (forEach init cs) c = forEach init cs"
proof -
  have "fresh (forEach init cs)" by (simp add: fresh_forEach fresh_init)
  with assms(1) have c0: "cursor (forEach init cs) = Number 0"
    and s0: "selection (forEach init cs) = None"
    by (simp_all add: fresh_def)
  from assms(2) show ?thesis
    using assms(1) c0 s0
    by (auto simp: callback_def lastResult_def clampPosition_def)
qed

theorem empty_log_noop_witness:
  "resultsArray (forEach init [MOVE 3, BACKSPACE None]) = []
   \<and> callback (forEach init [MOVE 3, BACKSPACE None]) (SELECT 1 2)
       = forEach init [MOVE 3, BACKSPACE None]
   \<and> callback (forEach init [MOVE 3, BACKSPACE None]) (MOVE (- 1))
       = forEach init [MOVE 3, BACKSPACE None]
   \<and> notepad_select [MOVE 3, BACKSPACE None, SELECT 1 2, MOVE (- 1), BACKSPACE (Some 4)] = []"
proof -
  have h: "resultsArray (forEach init [MOVE 3, BACKSPACE None]) = []"
    by (simp add: run_defs)
  from h empty_log_noop [OF h, of "SELECT 1 2" 0 None 1 2]
    empty_log_noop [OF h, of "MOVE (- 1)" "- 1" None 0 0]
  show ?thesis by (simp add: notepad_select_def run_defs)
qed

section \<open>Insert followed by Backspace\<close>

text \<open>
  C6, as the claim states it, fails in a state whose cursor lies beyond the buffer. Such
  a state, with no active selection, is reached by Append "abc", Backspace(-2) (buffer
  "abc", cursor 5); there Insert "XY" gives "abcXY" and Backspace(2) pushes "abcXY" again,
  not "abc".
\<close>

theorem round_trip_counterexample:
  "selection (forEach init [APPEND ''abc'', BACKSPACE (Some (- 2))]) = None
   \<and> lastResult (forEach init [APPEND ''abc'', BACKSPACE (Some (- 2))]) = ''abc''
   \<and> notepad_select [APPEND ''abc'', BACKSPACE (Some (- 2)), INSERT ''XY'',
                      BACKSPACE (Some (int (length ''XY'')))]
       = [''abc'', ''abc'', ''abcXY'', ''abcXY'']"
  by (simp add: notepad_select_def run_defs)

text \<open>
  C6, amended. In every state with no active selection whose cursor is an integer with
  \<open>0 \<le> cursor \<le> length(current buffer)\<close>, Insert(t) immediately followed by
  Backspace(length t) pushes two snapshots, and the second is the buffer that was current
  before the Insert.
\<close>

theorem insert_backspace_round_trip:
  assumes "selection s = None" and "cursor_in_range s"
  shows "resultsArray (callback (callback s (INSERT t)) (BACKSPACE (Some (int (length t)))))
         = resultsArray (callback s (INSERT t)) @ [lastResult s]"
proof -
  from assms(2) obtain c
    where c: "cursor s = Number c" "0 \<le> c" "c \<le> int (length (lastResult s))"
    by (auto simp: cursor_in_range_def split: jsnum.splits)
  define s1 where "s1 = callback s (INSERT t)"
  define new where "new = take (nat c) (lastResult s) @ t @ drop (nat c) (lastResult s)"
  have s1: "resultsArray s1 \<noteq> []" "selection s1 = None"
    "cursor s1 = Number (c + int (length t))" "lastResult s1 = new"
    using assms(1) c
    by (auto simp: s1_def new_def callback_def push_def lastResult_def slice_to slice_from Let_def)
  have "take (nat c) new = take (nat c) (lastResult s)"
    using c by (simp add: new_def)
  moreover have "drop (nat (c + int (length t))) new = drop (nat c) (lastResult s)"
    using c by (simp add: new_def nat_add_distrib min_def)
  ultimately have "resultsArray (callback s1 (BACKSPACE (Some (int (length t)))))
      = resultsArray s1 @ [lastResult s]"
    using s1 c by (simp add: callback_def push_def slice_to slice_from Let_def)
  then show ?thesis by (simp add: s1_def)
qed

theorem insert_backspace_round_trip_witness:
  "selection \<lparr>resultsArray = [''abc''], cursor = Number 1, selection = None\<rparr> = None
   \<and> cursor_in_range \<lparr>resultsArray = [''abc''], cursor = Number 1, selection = None\<rparr>
   \<and> resultsArray
        (callback
          (callback \<lparr>resultsArray = [''abc''], cursor = Number 1, selection = None\<rparr>
             (INSERT ''XY''))
          (BACKSPACE (Some (int (length ''XY'')))))
       = [''abc'', ''aXYbc'', ''abc'']"
proof -
  have h: "cursor_in_range \<lparr>resultsArray = [''abc''], cursor = Number 1, selection = None\<rparr>"
    by (simp add: cursor_in_range_def lastResult_def)
  from h insert_backspace_round_trip
          [of "\<lparr>resultsArray = [''abc''], cursor = Number 1, selection = None\<rparr>" "''XY''"]
  show ?thesis by (simp add: run_defs)
qed

section \<open>Move by zero\<close>

text \<open>
  C7. In every state, Move(0) leaves the snapshot log as it is, so it pushes no snapshot
  and the current buffer is unchanged; a Move(0) at the end of any command sequence does
  not change what the function returns.
\<close>

theorem move_zero:
  "resultsArray (callback s (MOVE 0)) = resultsArray s
   \<and> lastResult (callback s (MOVE 0)) = lastResult s
   \<and> notepad_select (cs @ [MOVE 0]) = notepad_select cs"
  by (simp add: notepad_select_def forEach_def callback_def clearSelection_def lastResult_def
      Let_def)

section \<open>Leaving range selection\<close>

text \<open>
  C8. In every state reached by a command sequence, a command other than Select leaves
  the selection none. So a selection is active only right after a Select, and an active
  selection is never followed by another one without a Select in between.
\<close>

theorem only_select_selects:
  assumes "\<forall>l r. c \<noteq> SELECT l r"
  shows "selection (callback (forEach init cs) c) = None"
proof -
  have f: "fresh (forEach init cs)" by (simp add: fresh_forEach fresh_init)
  show ?thesis
    using assms f
    by (cases c)
       (auto simp: fresh_def callback_def push_def clearSelection_def Let_def
          split: option.splits)
qed

theorem only_select_selects_witness:
  "(\<forall>l r. BACKSPACE None \<noteq> SELECT l r)
   \<and> selection (forEach init [APPEND ''abc'', SELECT 0 2]) = Some \<lparr>start = 0, end' = 2\<rparr>
   \<and> selection (callback (forEach init [APPEND ''abc'', SELECT 0 2]) (BACKSPACE None)) = None"
  using only_select_selects [of "BACKSPACE None" "[APPEND ''abc'', SELECT 0 2]"]
  by (simp add: run_defs)

section \<open>Totality\<close>

text \<open>
  The number of snapshots a run returns, and the run with exceptions made explicit:
  \<^verbatim>\<open>forEach\<close> is a recursion over the finite command list, and the reads of
  \<^verbatim>\<open>selection.start\<close> and \<^verbatim>\<open>selection.end\<close> never meet \<^verbatim>\<open>null\<close>, so the checked
  callback returns what the callback without exceptions computes.
\<close>

lemma callback_nonempty:
  "resultsArray s \<noteq> [] \<Longrightarrow>
   resultsArray (callback s c) \<noteq> [] \<and>
   length (resultsArray (callback s c)) = length (resultsArray s) + (if produces c then 1 else 0)"
  by (cases c)
     (auto simp: callback_def push_def clearSelection_def Let_def split: option.splits)

lemma forEach_nonempty:
  "resultsArray s \<noteq> [] \<Longrightarrow>
   length (resultsArray (forEach s cs)) = length (resultsArray s) + length (filter produces cs)"
proof (induction cs arbitrary: s)
  case Nil
  then show ?case by (simp add: forEach_def)
next
  case (Cons c cs)
  have "forEach s (c # cs) = forEach (callback s c) cs" by (simp add: forEach_def)
  with Cons.IH [of "callback s c"] callback_nonempty [OF Cons.prems, of c]
  show ?case by simp
qed

lemma callback_empty:
  "resultsArray s = [] \<Longrightarrow>
   length (resultsArray (callback s c)) = (if originates c then 1 else 0)"
  by (cases c)
     (auto simp: callback_def push_def clearSelection_def Let_def split: option.splits)

lemma forEach_empty:
  "resultsArray s = [] \<Longrightarrow>
   length (resultsArray (forEach s cs))
   = length (filter produces (dropWhile (\<lambda>c. \<not> originates c) cs))"
proof (induction cs arbitrary: s)
  case Nil
  then show ?case by (simp add: forEach_def)
next
  case (Cons c cs)
  have step: "forEach s (c # cs) = forEach (callback s c) cs" by (simp add: forEach_def)
  show ?case
  proof (cases "originates c")
    case True
    then have p: "produces c" by (cases c) simp_all
    from True callback_empty [OF Cons.prems, of c]
    have one: "length (resultsArray (callback s c)) = 1" by simp
    then have "resultsArray (callback s c) \<noteq> []" by auto
    from forEach_nonempty [OF this, of cs] one
    show ?thesis using True p step by simp
  next
    case False
    with callback_empty [OF Cons.prems, of c]
    have "resultsArray (callback s c) = []" by simp
    from Cons.IH [OF this] show ?thesis using False step by simp
  qed
qed

lemma slice_index_le: "slice_index len i \<le> len"
  by (auto simp: slice_index_def)

lemma length_slice_le: "length (slice str i e) \<le> length str"
  by (auto simp: slice_def Let_def min_def)

lemma switch_checked_returns: "switch_checked s c = Inr (switch s c)"
  by (cases c; cases "selection s") (simp_all add: and_then_def Let_def)

lemma callback_checked_returns: "callback_checked s c = Inr (callback s c)"
  by (simp add: callback_checked_def callback_def switch_checked_returns)

lemma forEach_checked_returns: "forEach_checked s cs = Inr (forEach s cs)"
  by (induction cs arbitrary: s)
     (simp_all add: forEach_def and_then_def callback_checked_returns)

lemma select_in_range:
  "cursor_in_range (callback s (SELECT left right))
   \<and> (case selection (callback s (SELECT left right)) of
        None \<Rightarrow> True
      | Some sel \<Rightarrow> 0 \<le> start sel \<and> start sel \<le> int (length (lastResult s))
                 \<and> 0 \<le> end' sel \<and> end' sel \<le> int (length (lastResult s)))"
  by (simp add: callback_def cursor_in_range_def clampPosition_def lastResult_def Let_def)

lemma move_in_range:
  "resultsArray s \<noteq> [] \<Longrightarrow> cursor s = Number c \<Longrightarrow> cursor_in_range (callback s (MOVE d))"
  by (simp add: callback_def cursor_in_range_def clearSelection_def lastResult_def Let_def)

text \<open>
  C9, as the claim states it, fails in its last part: a position outside the buffer is
  not always clamped. Append "ab", Backspace(-3) raises nothing and returns two
  snapshots, but the deletion start 5 is limited from below only and becomes the cursor
  of the two-character buffer "ab".
\<close>

theorem unclamped_position_counterexample:
  "notepad_checked [APPEND ''ab'', BACKSPACE (Some (- 3))] = Inr [''ab'', ''ab'']
   \<and> lastResult (forEach init [APPEND ''ab'', BACKSPACE (Some (- 3))]) = ''ab''
   \<and> cursor (forEach init [APPEND ''ab'', BACKSPACE (Some (- 3))]) = Number 5
   \<and> \<not> cursor_in_range (forEach init [APPEND ''ab'', BACKSPACE (Some (- 3))])"
  by (simp add: notepad_checked_def forEach_checked_returns and_then_def cursor_in_range_def
      run_defs)

text \<open>
  C9, amended. The function is total over all integer inputs: for every finite command
  list, whatever integers its numeric fields hold and whether or not a Backspace count
  is present, it ends without an exception (no read of \<^verbatim>\<open>selection.start\<close> or
  \<^verbatim>\<open>selection.end\<close> meets \<^verbatim>\<open>null\<close>) and returns a snapshot list, with one snapshot for
  each Append and Insert and one for each Backspace that comes after the first Append or
  Insert. A position out of range is never an error: in every state, Select with any two
  bounds leaves the cursor and both ends of the selection inside
  \<open>[0, length(current)]\<close>; a Move that is not skipped, from any integer cursor, leaves
  the cursor inside \<open>[0, length(current)]\<close>; and \<^verbatim>\<open>slice\<close> limits every index to the
  text. The cursor left by a Backspace is not part of the statement.
\<close>

theorem notepad_total:
  "notepad_checked cs = Inr (notepad_select cs)
   \<and> length (notepad_select cs)
       = length (filter produces (dropWhile (\<lambda>c. \<not> originates c) cs))
   \<and> cursor_in_range (callback s (SELECT left right))
   \<and> (case selection (callback s (SELECT left right)) of
        None \<Rightarrow> True
      | Some sel \<Rightarrow> 0 \<le> start sel \<and> start sel \<le> int (length (lastResult s))
                 \<and> 0 \<le> end' sel \<and> end' sel \<le> int (length (lastResult s)))
   \<and> (resultsArray s \<noteq> [] \<and> cursor s = Number c \<longrightarrow>
        cursor_in_range (callback s (MOVE d)))
   \<and> slice_index len i \<le> len"
proof -
  have "notepad_checked cs = Inr (notepad_select cs)"
    by (simp add: notepad_checked_def notepad_select_def forEach_checked_returns and_then_def)
  moreover have "length (notepad_select cs)
       = length (filter produces (dropWhile (\<lambda>c. \<not> originates c) cs))"
    by (simp add: notepad_select_def forEach_empty init_def)
  ultimately show ?thesis
    using select_in_range [of s left right] move_in_range [of s c d] slice_index_le [of len i]
    by blast
qed

theorem notepad_total_witness:
  "notepad_checked [MOVE (- 9), APPEND ''ab'', SELECT (- 5) 100, BACKSPACE None,
                    BACKSPACE (Some (- 3)), INSERT ''x'']
     = Inr [''ab'', [], [], ''x'']
   \<and> resultsArray \<lparr>resultsArray = [''ab''], cursor = Number 7, selection = None\<rparr> \<noteq> []
   \<and> cursor (callback \<lparr>resultsArray = [''ab''], cursor = Number 7, selection = None\<rparr>
        (MOVE 1)) = Number 2
   \<and> cursor_in_range
        (callback \<lparr>resultsArray = [''ab''], cursor = Number 7, selection = None\<rparr> (MOVE 1))
   \<and> selection (callback \<lparr>resultsArray = [''ab''], cursor = Number 7, selection = None\<rparr>
        (SELECT 9 (- 4))) = Some \<lparr>start = 2, end' = 0\<rparr>"
  using notepad_total
          [of "[MOVE (- 9), APPEND ''ab'', SELECT (- 5) 100, BACKSPACE None,
                BACKSPACE (Some (- 3)), INSERT ''x'']"
              "\<lparr>resultsArray = [''ab''], cursor = Number 7, selection = None\<rparr>" 9 "- 4" 7 1]
  by (simp add: notepad_select_def run_defs)

section \<open>The two files compared\<close>

lemma slice_length: "slice str i (Some (int (length str))) = slice str i None"
  by (simp add: slice_def slice_index_def)

lemma same_callback:
  assumes "same v s" "defect_free s c"
  shows "same (callback_index v c) (callback s c)"
proof -
  from assms(1) have lr: "lastResult v = lastResult s"
    by (simp add: same_def lastResult_def)
  show ?thesis
    using assms lr
    by (cases c; cases "cursor s")
       (auto simp: same_def callback_def callback_index_def push_def clearSelection_def
          slice_length Let_def split: option.splits jsnum.splits)
qed

lemma same_foldl:
  "same v s \<Longrightarrow> defects_free s cs \<Longrightarrow> same (foldl callback_index v cs) (foldl callback s cs)"
  by (induction cs arbitrary: v s) (simp_all add: same_callback)

text \<open>
  Away from the two places where \<^verbatim>\<open>src/index.js\<close> parts from part_000, the two
  functions return the same snapshots; the sample input of \<^verbatim>\<open>src/index.js\<close> is such a
  sequence.
\<close>

lemma index_agrees:
  assumes "defects_free init cs"
  shows "notepad_index cs = notepad_select cs"
proof -
  have "same init_index init" by (simp add: same_def init_def init_index_def)
  from same_foldl [OF this assms] show ?thesis
    by (simp add: same_def notepad_index_def notepad_select_def forEach_def)
qed

lemma sample_input_agrees:
  "notepad_index [APPEND ''Hi'', APPEND '' there!'', MOVE (- 600), MOVE 6,
                  BACKSPACE (Some 3), INSERT ''Squa'']
   = [''Hi'', ''Hi there!'', ''Hi re!'', ''Hi Square!'']"
proof -
  have "defects_free init [APPEND ''Hi'', APPEND '' there!'', MOVE (- 600), MOVE 6,
                           BACKSPACE (Some 3), INSERT ''Squa'']"
    by (simp add: run_defs)
  from index_agrees [OF this] show ?thesis
    by (simp add: notepad_select_def run_defs)
qed

text \<open>
  C10 fails on the code, through two slips of \<^verbatim>\<open>src/index.js\<close> that part_000 does not
  have. Its \<^verbatim>\<open>MOVE\<close> limits the cursor to \<^verbatim>\<open>lastResult.length - 1\<close>: after Append
  "ab", Move(0) takes the cursor from 2 to 1 and Insert "X" gives "aXb", where part_000
  gives "abX". Its \<^verbatim>\<open>BACKSPACE\<close> does not limit \<^verbatim>\<open>cursor - value\<close> to 0: with the cursor
  at 1 in "abc", Backspace(2) calls \<^verbatim>\<open>slice(0, -1)\<close> and pushes "abbc", where part_000
  pushes "bc".
\<close>

theorem index_diverges:
  "notepad_index [APPEND ''ab'', MOVE 0, INSERT ''X''] = [''ab'', ''aXb'']
   \<and> notepad_select [APPEND ''ab'', MOVE 0, INSERT ''X''] = [''ab'', ''abX'']
   \<and> notepad_index [APPEND ''abc'', MOVE (- 2), BACKSPACE (Some 2)] = [''abc'', ''abbc'']
   \<and> notepad_select [APPEND ''abc'', MOVE (- 2), BACKSPACE (Some 2)] = [''abc'', ''bc'']"
  by (simp add: notepad_select_def notepad_index_def callback_index_def init_index_def run_defs)

end
